theory Spec2Isabelle
  imports Main "HOL-Library.AList"
begin

section \<open>The swap-and-points settlement engine\<close>

text \<open>
  A shallow embedding of the Mongoose models \<open>User\<close>, \<open>Item\<close> and \<open>SwapRequest\<close> and of
  the Express handlers of \<open>routes/swaps.js\<close>. The database is an explicit store; every
  \<open>findById\<close> reads a copy of a document out of it and every \<open>save()\<close> validates the
  copy against its schema and writes it back. A rejected promise (a \<open>throw\<close>) is a value,
  and the store that has been written so far is returned with it: the handlers have no
  transaction, so whatever was saved before a throw stays saved.

  Numbers are modelled as \<open>int\<close> (the ledger holds integers; JavaScript numbers are
  exact on them up to \<open>2^53\<close>), document ids as \<open>nat\<close>, dates as milliseconds.
\<close>

subsection \<open>Values, errors and responses\<close>

type_synonym objectId = nat

text \<open>
  What a handler or a model method can throw: \<open>new Error(msg)\<close>, the
  \<open>ValidationError\<close> of a schema validator (with the validators' messages), and the
  \<open>TypeError\<close> of a property access on \<open>null\<close>.
\<close>

datatype exn = Error string | ValidationError "string list" | TypeError

text \<open>The outcome of an awaited call: the promise resolved, or it rejected.\<close>

datatype outcome = Done | Threw exn

text \<open>
  The JSON answer of a handler: \<open>Success code message\<close> and \<open>Failure code message\<close>
  are the answers with \<open>success: true\<close> and \<open>success: false\<close>; \<open>ServerError message e\<close>
  is the answer of a \<open>catch\<close> block, status 500 with \<open>error: e.message\<close>.
\<close>

datatype response = Success nat string | Failure nat string | ServerError string exn

datatype item_status = ItemPending | Available | Swapped | Removed

datatype swap_status = Pending | Accepted | Rejected | Completed | Cancelled

datatype swap_type = Direct | Points

subsection \<open>Documents\<close>

record userStats =
  itemsListed :: int
  itemsSwapped :: int
  swapsCompleted :: int
  totalPointsEarned :: int
  totalPointsSpent :: int

record User =
  points :: int
  stats :: userStats

text \<open>\<open>istatus\<close> and \<open>ipoints\<close> are the fields \<open>status\<close> and \<open>points\<close> of an item.\<close>

record Item =
  uploader :: objectId
  istatus :: item_status
  ipoints :: int
  swapRequests :: "objectId list"

record SwapRequest =
  item :: objectId
  requester :: objectId
  itemOwner :: objectId
  swapType :: swap_type
  status :: swap_status
  offeredItem :: "objectId option"
  offeredPoints :: "int option"
  message :: "string option"
  responseMessage :: "string option"
  completedAt :: "int option"
  cancelledBy :: "objectId option"
  cancelledReason :: "string option"
  pointsTransferred :: bool
  transferAmount :: "int option"
  createdAt :: int

text \<open>
  The three collections. Users and items are only ever looked up by id; the swap
  requests are also searched (\<open>findOne\<close>), so they are kept as an association list.
\<close>

record store =
  users :: "objectId \<rightharpoonup> User"
  items :: "objectId \<rightharpoonup> Item"
  swaps :: "(objectId \<times> SwapRequest) list"

text \<open>\<open>await m; k\<close>: a rejection of \<open>m\<close> is thrown on, past the rest of the block.\<close>

definition andThen :: "outcome \<times> store \<Rightarrow> (store \<Rightarrow> outcome \<times> store) \<Rightarrow> outcome \<times> store" where
  "andThen m k = (case m of (Done, s) \<Rightarrow> k s | (Threw e, s) \<Rightarrow> (Threw e, s))"

text \<open>The end of a handler's \<open>try\<close> block: the success answer, or the \<open>catch\<close> block's.\<close>

definition respond :: "string \<Rightarrow> string \<Rightarrow> nat \<Rightarrow> outcome \<times> store \<Rightarrow> response \<times> store" where
  "respond okMessage failMessage code m =
     (case m of (Done, s) \<Rightarrow> (Success code okMessage, s)
              | (Threw e, s) \<Rightarrow> (ServerError failMessage e, s))"

subsection \<open>Request validation (express-validator)\<close>

text \<open>
  \<open>trim\<close> is the validator library's sanitizer: it strips leading and trailing
  whitespace (JavaScript's \<open>\s\<close>, on the code points a \<open>char\<close> can hold).
\<close>

definition isSpace :: "char \<Rightarrow> bool" where
  "isSpace c = (c \<in> {CHR 0x09, CHR 0x0A, CHR 0x0B, CHR 0x0C, CHR 0x0D, CHR 0x20, CHR 0xA0})"

definition trim :: "string \<Rightarrow> string" where
  "trim v = rev (dropWhile isSpace (rev (dropWhile isSpace v)))"

text \<open>\<open>body(f).optional().trim().isLength({ max: n })\<close>: an absent field passes.\<close>

definition optionalMaxLength :: "nat \<Rightarrow> string option \<Rightarrow> bool" where
  "optionalMaxLength n v = (case v of None \<Rightarrow> True | Some t \<Rightarrow> length (trim t) \<le> n)"

subsection \<open>Schemas\<close>

text \<open>
  Mongoose runs a schema's validators before every \<open>save()\<close> and rejects the save with
  a \<open>ValidationError\<close> when one fails. The validators on the modelled fields are:
  \<open>User.points\<close> min 0; \<open>Item.points\<close> min 1, max 1000; on a swap request
  \<open>offeredPoints\<close> min 0, \<open>transferAmount\<close> min 0 and the maximal lengths of the
  three texts.
\<close>

definition User_validate :: "User \<Rightarrow> string list" where
  "User_validate u = (if points u < 0 then [''Points cannot be negative''] else [])"

definition Item_validate :: "Item \<Rightarrow> string list" where
  "Item_validate i =
     (if ipoints i < 1 then [''Points must be at least 1'']
      else if 1000 < ipoints i then [''Points cannot exceed 1000'']
      else [])"

definition tooLong :: "nat \<Rightarrow> string option \<Rightarrow> bool" where
  "tooLong n v = (case v of None \<Rightarrow> False | Some t \<Rightarrow> n < length t)"

definition negative :: "int option \<Rightarrow> bool" where
  "negative v = (case v of None \<Rightarrow> False | Some n \<Rightarrow> n < 0)"

definition SwapRequest_validate :: "SwapRequest \<Rightarrow> string list" where
  "SwapRequest_validate r =
     (if negative (offeredPoints r) then [''Offered points cannot be negative''] else []) @
     (if tooLong 500 (message r) then [''Message cannot exceed 500 characters''] else []) @
     (if tooLong 500 (responseMessage r)
      then [''Response message cannot exceed 500 characters''] else []) @
     (if tooLong 200 (cancelledReason r)
      then [''Cancellation reason cannot exceed 200 characters''] else []) @
     (if negative (transferAmount r) then [''Transfer amount cannot be negative''] else [])"

text \<open>JavaScript's \<open>!v\<close> on an optional number: \<open>undefined\<close> and \<open>0\<close> are falsy.\<close>

definition falsy :: "int option \<Rightarrow> bool" where
  "falsy v = (case v of None \<Rightarrow> True | Some n \<Rightarrow> n = 0)"

text \<open>The \<open>pre('save')\<close> hook of the swap request schema.\<close>

definition SwapRequest_preSave :: "SwapRequest \<Rightarrow> exn option" where
  "SwapRequest_preSave this =
     (if offeredItem this = None \<and> (falsy (offeredPoints this) \<or> offeredPoints this = Some 0)
      then Some (Error ''Either an offered item or points must be provided'')
      else if requester this = itemOwner this
      then Some (Error ''Cannot request swap for your own item'')
      else None)"

subsection \<open>Saving\<close>

text \<open>
  \<open>save()\<close> validates the document in memory and then writes its modified paths to
  the stored document with that id; it does not create a document that is not stored.
  For a user and for an item the modified paths are given as the update \<open>delta\<close>
  applied to the stored document. A swap request is written whole: \<open>create\<close> inserts
  it, and every method of a request is called on the document that the handler has just
  loaded at that id.
\<close>

definition User_save :: "objectId \<Rightarrow> User \<Rightarrow> (User \<Rightarrow> User) \<Rightarrow> store \<Rightarrow> outcome \<times> store" where
  "User_save uid this delta s =
     (case User_validate this of
        [] \<Rightarrow> (Done, s\<lparr>users := (users s)(uid := map_option delta (users s uid))\<rparr>)
      | e # es \<Rightarrow> (Threw (ValidationError (e # es)), s))"

definition Item_save :: "objectId \<Rightarrow> Item \<Rightarrow> (Item \<Rightarrow> Item) \<Rightarrow> store \<Rightarrow> outcome \<times> store" where
  "Item_save iid this delta s =
     (case Item_validate this of
        [] \<Rightarrow> (Done, s\<lparr>items := (items s)(iid := map_option delta (items s iid))\<rparr>)
      | e # es \<Rightarrow> (Threw (ValidationError (e # es)), s))"

definition SwapRequest_save :: "objectId \<Rightarrow> SwapRequest \<Rightarrow> store \<Rightarrow> outcome \<times> store" where
  "SwapRequest_save rid this s =
     (case SwapRequest_validate this of
        e # es \<Rightarrow> (Threw (ValidationError (e # es)), s)
      | [] \<Rightarrow>
         (case SwapRequest_preSave this of
            Some e \<Rightarrow> (Threw e, s)
          | None \<Rightarrow> (Done, s\<lparr>swaps := AList.update rid this (swaps s)\<rparr>)))"

subsection \<open>The points ledger: methods of \<open>User\<close>\<close>

definition addPoints :: "objectId \<Rightarrow> User \<Rightarrow> int \<Rightarrow> store \<Rightarrow> outcome \<times> store" where
  "addPoints uid this n s =
     (let p = points this + n; e = totalPointsEarned (stats this) + n
      in User_save uid (this\<lparr>points := p, stats := (stats this)\<lparr>totalPointsEarned := e\<rparr>\<rparr>)
           (\<lambda>u. u\<lparr>points := p, stats := (stats u)\<lparr>totalPointsEarned := e\<rparr>\<rparr>) s)"

definition spendPoints :: "objectId \<Rightarrow> User \<Rightarrow> int \<Rightarrow> store \<Rightarrow> outcome \<times> store" where
  "spendPoints uid this n s =
     (if points this < n then (Threw (Error ''Insufficient points''), s)
      else
        let p = points this - n; e = totalPointsSpent (stats this) + n
        in User_save uid (this\<lparr>points := p, stats := (stats this)\<lparr>totalPointsSpent := e\<rparr>\<rparr>)
             (\<lambda>u. u\<lparr>points := p, stats := (stats u)\<lparr>totalPointsSpent := e\<rparr>\<rparr>) s)"

definition incrementSwapsCompleted :: "objectId \<Rightarrow> User \<Rightarrow> store \<Rightarrow> outcome \<times> store" where
  "incrementSwapsCompleted uid this s =
     (let c = swapsCompleted (stats this) + 1
      in User_save uid (this\<lparr>stats := (stats this)\<lparr>swapsCompleted := c\<rparr>\<rparr>)
           (\<lambda>u. u\<lparr>stats := (stats u)\<lparr>swapsCompleted := c\<rparr>\<rparr>) s)"

subsection \<open>The availability tracker: methods of \<open>Item\<close>\<close>

definition markAsSwapped :: "objectId \<Rightarrow> Item \<Rightarrow> store \<Rightarrow> outcome \<times> store" where
  "markAsSwapped iid this s =
     Item_save iid (this\<lparr>istatus := Swapped\<rparr>) (\<lambda>i. i\<lparr>istatus := Swapped\<rparr>) s"

text \<open>
  \<open>const item = await Item.findById(id); await item.markAsSwapped()\<close>: a missing item
  is \<open>null\<close>, and the call on it throws.
\<close>

definition findAndMarkAsSwapped :: "objectId \<Rightarrow> store \<Rightarrow> outcome \<times> store" where
  "findAndMarkAsSwapped iid s =
     (case items s iid of None \<Rightarrow> (Threw TypeError, s) | Some i \<Rightarrow> markAsSwapped iid i s)"

text \<open>\<open>if (this.offeredItem) { ... }\<close>: the offered item, when there is one.\<close>

definition markOfferedAsSwapped :: "objectId option \<Rightarrow> store \<Rightarrow> outcome \<times> store" where
  "markOfferedAsSwapped oid s =
     (case oid of None \<Rightarrow> (Done, s) | Some j \<Rightarrow> findAndMarkAsSwapped j s)"

subsection \<open>The swap request state machine: methods of \<open>SwapRequest\<close>\<close>

text \<open>A method call on a document that \<open>findById\<close> returned: on \<open>null\<close> it throws.\<close>

definition onUser :: "User option \<Rightarrow> (User \<Rightarrow> store \<Rightarrow> outcome \<times> store) \<Rightarrow> store \<Rightarrow> outcome \<times> store" where
  "onUser doc method s = (case doc of None \<Rightarrow> (Threw TypeError, s) | Some u \<Rightarrow> method u s)"

text \<open>
  \<open>accept\<close> loads both users before it changes either; \<open>undefined > 0\<close> is false, so
  a request without \<open>offeredPoints\<close> is saved without a transfer.
\<close>

definition accept :: "objectId \<Rightarrow> SwapRequest \<Rightarrow> string option \<Rightarrow> store \<Rightarrow> outcome \<times> store" where
  "accept rid this0 msg s =
     (let this = this0\<lparr>status := Accepted, responseMessage := msg\<rparr>
      in case offeredPoints this of
           None \<Rightarrow> SwapRequest_save rid this s
         | Some n \<Rightarrow>
             if swapType this = Points \<and> 0 < n then
               (case users s (requester this) of
                  None \<Rightarrow> (Threw TypeError, s)
                | Some rq \<Rightarrow>
                    if n \<le> points rq then
                      andThen (spendPoints (requester this) rq n s) (\<lambda>s1.
                      andThen (onUser (users s (itemOwner this))
                                 (\<lambda>ow. addPoints (itemOwner this) ow n) s1) (\<lambda>s2.
                      SwapRequest_save rid
                        (this\<lparr>pointsTransferred := True, transferAmount := Some n\<rparr>) s2))
                    else (Threw (Error ''Insufficient points for swap''), s))
             else SwapRequest_save rid this s)"

definition reject :: "objectId \<Rightarrow> SwapRequest \<Rightarrow> string option \<Rightarrow> store \<Rightarrow> outcome \<times> store" where
  "reject rid this0 msg s =
     SwapRequest_save rid (this0\<lparr>status := Rejected, responseMessage := msg\<rparr>) s"

definition complete :: "objectId \<Rightarrow> SwapRequest \<Rightarrow> int \<Rightarrow> store \<Rightarrow> outcome \<times> store" where
  "complete rid this0 now s =
     (let this = this0\<lparr>status := Completed, completedAt := Some now\<rparr>
      in andThen (onUser (users s (requester this))
                    (\<lambda>u. incrementSwapsCompleted (requester this) u) s) (\<lambda>s1.
         andThen (onUser (users s (itemOwner this))
                    (\<lambda>u. incrementSwapsCompleted (itemOwner this) u) s1) (\<lambda>s2.
         andThen (findAndMarkAsSwapped (item this) s2) (\<lambda>s3.
         andThen (markOfferedAsSwapped (offeredItem this) s3) (\<lambda>s4.
         SwapRequest_save rid this s4)))))"

definition cancel :: "objectId \<Rightarrow> SwapRequest \<Rightarrow> objectId \<Rightarrow> string option \<Rightarrow> store \<Rightarrow> outcome \<times> store" where
  "cancel rid this0 userId reason s =
     (let this = this0\<lparr>status := Cancelled, cancelledBy := Some userId,
                        cancelledReason := reason\<rparr>
      in case transferAmount this of
           None \<Rightarrow> SwapRequest_save rid this s
         | Some n \<Rightarrow>
             if pointsTransferred this \<and> 0 < n then
               andThen (onUser (users s (requester this))
                          (\<lambda>u. addPoints (requester this) u n) s) (\<lambda>s1.
               andThen (onUser (users s (itemOwner this))
                          (\<lambda>u. spendPoints (itemOwner this) u n) s1) (\<lambda>s2.
               SwapRequest_save rid (this\<lparr>pointsTransferred := False\<rparr>) s2))
             else SwapRequest_save rid this s)"

text \<open>The virtuals \<open>isExpired\<close> and \<open>canBeCancelled\<close>; \<open>now\<close> is \<open>Date.now()\<close>.\<close>

definition isExpired :: "int \<Rightarrow> SwapRequest \<Rightarrow> bool" where
  "isExpired now this =
     (if status this \<noteq> Pending then False
      else createdAt this < now - 7 * 24 * 60 * 60 * 1000)"

definition canBeCancelled :: "int \<Rightarrow> SwapRequest \<Rightarrow> bool" where
  "canBeCancelled now this = (status this = Pending \<and> \<not> isExpired now this)"

subsection \<open>The orchestrator: handlers of \<open>routes/swaps.js\<close>\<close>

text \<open>
  In every handler \<open>caller\<close> is \<open>req.user._id\<close>, the principal that the \<open>protect\<close>
  middleware authenticated, and \<open>rid\<close> is \<open>req.params.id\<close>.
\<close>

text \<open>\<open>PUT /api/swaps/:id/accept\<close>; \<open>body\<close> is \<open>req.body.responseMessage\<close>.\<close>

definition acceptRoute :: "objectId \<Rightarrow> objectId \<Rightarrow> string option \<Rightarrow> store \<Rightarrow> response \<times> store" where
  "acceptRoute caller rid body s =
     (if \<not> optionalMaxLength 500 body then (Failure 400 ''Validation errors'', s)
      else
        case map_of (swaps s) rid of
          None \<Rightarrow> (Failure 404 ''Swap request not found'', s)
        | Some swapRequest \<Rightarrow>
            if itemOwner swapRequest \<noteq> caller
            then (Failure 403 ''Not authorized to accept this swap request'', s)
            else if status swapRequest \<noteq> Pending
            then (Failure 400 ''Swap request is no longer pending'', s)
            else
              respond ''Swap request accepted successfully'' ''Failed to accept swap request'' 200
                (andThen (accept rid swapRequest (map_option trim body) s) (\<lambda>s1.
                 case items s1 (item swapRequest) of
                   None \<Rightarrow> (Threw TypeError, s1)
                 | Some i \<Rightarrow>
                     andThen (markAsSwapped (item swapRequest) i s1) (\<lambda>s2.
                     andThen (case users s2 (uploader i) of
                                None \<Rightarrow> (Done, s2)
                              | Some u \<Rightarrow>
                                  if ipoints i \<noteq> 0 then addPoints (uploader i) u (ipoints i) s2
                                  else (Done, s2)) (\<lambda>s3.
                     markOfferedAsSwapped (offeredItem swapRequest) s3)))))"

text \<open>\<open>PUT /api/swaps/:id/reject\<close>.\<close>

definition rejectRoute :: "objectId \<Rightarrow> objectId \<Rightarrow> string option \<Rightarrow> store \<Rightarrow> response \<times> store" where
  "rejectRoute caller rid body s =
     (if \<not> optionalMaxLength 500 body then (Failure 400 ''Validation errors'', s)
      else
        case map_of (swaps s) rid of
          None \<Rightarrow> (Failure 404 ''Swap request not found'', s)
        | Some swapRequest \<Rightarrow>
            if itemOwner swapRequest \<noteq> caller
            then (Failure 403 ''Not authorized to reject this swap request'', s)
            else if status swapRequest \<noteq> Pending
            then (Failure 400 ''Swap request is no longer pending'', s)
            else
              respond ''Swap request rejected successfully'' ''Failed to reject swap request'' 200
                (reject rid swapRequest (map_option trim body) s))"

text \<open>\<open>PUT /api/swaps/:id/complete\<close>.\<close>

definition completeRoute :: "int \<Rightarrow> objectId \<Rightarrow> objectId \<Rightarrow> store \<Rightarrow> response \<times> store" where
  "completeRoute now caller rid s =
     (case map_of (swaps s) rid of
        None \<Rightarrow> (Failure 404 ''Swap request not found'', s)
      | Some swapRequest \<Rightarrow>
          if requester swapRequest \<noteq> caller \<and> itemOwner swapRequest \<noteq> caller
          then (Failure 403 ''Not authorized to complete this swap'', s)
          else if status swapRequest \<noteq> Accepted
          then (Failure 400 ''Swap request must be accepted before completion'', s)
          else
            respond ''Swap completed successfully'' ''Failed to complete swap'' 200
              (complete rid swapRequest now s))"

text \<open>\<open>PUT /api/swaps/:id/cancel\<close>; \<open>body\<close> is \<open>req.body.reason\<close>.\<close>

definition cancelRoute :: "int \<Rightarrow> objectId \<Rightarrow> objectId \<Rightarrow> string option \<Rightarrow> store \<Rightarrow> response \<times> store" where
  "cancelRoute now caller rid body s =
     (if \<not> optionalMaxLength 200 body then (Failure 400 ''Validation errors'', s)
      else
        case map_of (swaps s) rid of
          None \<Rightarrow> (Failure 404 ''Swap request not found'', s)
        | Some swapRequest \<Rightarrow>
            if requester swapRequest \<noteq> caller
            then (Failure 403 ''Not authorized to cancel this swap request'', s)
            else if \<not> canBeCancelled now swapRequest
            then (Failure 400 ''Swap request cannot be cancelled'', s)
            else
              respond ''Swap request cancelled successfully'' ''Failed to cancel swap request'' 200
                (cancel rid swapRequest caller (map_option trim body) s))"

text \<open>
  \<open>POST /api/swaps\<close>. The body's ids are well-formed by their type, so the two
  \<open>notEmpty\<close> checks hold; \<open>reqPoints\<close> is \<open>req.user.points\<close>, \<open>newId\<close> the id that
  \<open>SwapRequest.create\<close> gives the new document and \<open>now\<close> its \<open>createdAt\<close>.
\<close>

record createBody =
  itemId :: objectId
  swapTypeField :: string
  offeredItemId :: "objectId option"
  offeredPointsField :: "int option"
  messageField :: "string option"

definition bodyValid :: "createBody \<Rightarrow> bool" where
  "bodyValid b =
     ((swapTypeField b = ''direct'' \<or> swapTypeField b = ''points'') \<and>
      (case offeredPointsField b of None \<Rightarrow> True | Some n \<Rightarrow> 1 \<le> n) \<and>
      optionalMaxLength 500 (messageField b))"

text \<open>\<open>v <= 0\<close> and \<open>p < v\<close> on an optional number: false on \<open>undefined\<close>.\<close>

definition notPositive :: "int option \<Rightarrow> bool" where
  "notPositive v = (case v of None \<Rightarrow> False | Some n \<Rightarrow> n \<le> 0)"

definition below :: "int \<Rightarrow> int option \<Rightarrow> bool" where
  "below p v = (case v of None \<Rightarrow> False | Some n \<Rightarrow> p < n)"

text \<open>\<open>SwapRequest.findOne({ item, requester, status: 'pending' })\<close>.\<close>

definition findPending :: "objectId \<Rightarrow> objectId \<Rightarrow> store \<Rightarrow> (objectId \<times> SwapRequest) option" where
  "findPending iid uid s =
     find (\<lambda>(rid, r). item r = iid \<and> requester r = uid \<and> status r = Pending) (swaps s)"

text \<open>The document that \<open>SwapRequest.create\<close> builds, with the schema's defaults.\<close>

definition newSwapRequest :: "objectId \<Rightarrow> Item \<Rightarrow> int \<Rightarrow> createBody \<Rightarrow> SwapRequest" where
  "newSwapRequest caller i now b =
     \<lparr>item = itemId b, requester = caller, itemOwner = uploader i,
      swapType = (if swapTypeField b = ''direct'' then Direct else Points),
      status = Pending, offeredItem = offeredItemId b, offeredPoints = offeredPointsField b,
      message = map_option trim (messageField b), responseMessage = None,
      completedAt = None, cancelledBy = None, cancelledReason = None,
      pointsTransferred = False, transferAmount = None, createdAt = now\<rparr>"

text \<open>The checks on the offered item; \<open>None\<close> when they pass.\<close>

definition checkOfferedItem :: "objectId \<Rightarrow> objectId option \<Rightarrow> store \<Rightarrow> response option" where
  "checkOfferedItem caller oid s =
     (case oid of
        None \<Rightarrow> None
      | Some j \<Rightarrow>
          (case items s j of
             None \<Rightarrow> Some (Failure 404 ''Offered item not found'')
           | Some offered \<Rightarrow>
               if uploader offered \<noteq> caller
               then Some (Failure 403 ''You can only offer your own items'')
               else if istatus offered \<noteq> Available
               then Some (Failure 400 ''Offered item is not available'')
               else None))"

definition createRoute :: "objectId \<Rightarrow> int \<Rightarrow> objectId \<Rightarrow> int \<Rightarrow> createBody \<Rightarrow> store \<Rightarrow> response \<times> store" where
  "createRoute caller reqPoints newId now b s =
     (if \<not> bodyValid b then (Failure 400 ''Validation errors'', s)
      else
        case items s (itemId b) of
          None \<Rightarrow> (Failure 404 ''Item not found'', s)
        | Some i \<Rightarrow>
            if istatus i \<noteq> Available
            then (Failure 400 ''Item is not available for swapping'', s)
            else if uploader i = caller
            then (Failure 400 ''Cannot request swap for your own item'', s)
            else if swapTypeField b = ''direct'' \<and> offeredItemId b = None
            then (Failure 400 ''Direct swap requires an offered item'', s)
            else if swapTypeField b = ''points'' \<and>
                    (falsy (offeredPointsField b) \<or> notPositive (offeredPointsField b))
            then (Failure 400 ''Points swap requires offered points'', s)
            else if swapTypeField b = ''points'' \<and> below reqPoints (offeredPointsField b)
            then (Failure 400 ''Insufficient points for this swap'', s)
            else
              case checkOfferedItem caller (offeredItemId b) s of
                Some failure \<Rightarrow> (failure, s)
              | None \<Rightarrow>
                  (case findPending (itemId b) caller s of
                     Some existing \<Rightarrow>
                       (Failure 400 ''You already have a pending swap request for this item'', s)
                   | None \<Rightarrow>
                       respond ''Swap request created successfully''
                         ''Failed to create swap request'' 201
                         (andThen (SwapRequest_save newId (newSwapRequest caller i now b) s)
                            (\<lambda>s1. Item_save (itemId b)
                                     (i\<lparr>swapRequests := swapRequests i @ [newId]\<rparr>)
                                     (\<lambda>stored. stored\<lparr>swapRequests :=
                                                          swapRequests i @ [newId]\<rparr>) s1))))"

text \<open>
  An accepted request cannot reach \<open>cancel\<close> through the cancel handler, which
  requires \<open>canBeCancelled\<close>. \<open>acceptThenCancel\<close> is the accept handler followed by
  the model's \<open>cancel\<close> method, called on the stored request for its requester.
\<close>

definition acceptThenCancel :: "objectId \<Rightarrow> objectId \<Rightarrow> string option \<Rightarrow> string option \<Rightarrow> store \<Rightarrow> outcome \<times> store" where
  "acceptThenCancel caller rid body reason s =
     (case acceptRoute caller rid body s of
        (resp, s1) \<Rightarrow>
          (case map_of (swaps s1) rid of
             None \<Rightarrow> (Threw TypeError, s1)
           | Some accepted \<Rightarrow> cancel rid accepted (requester accepted) reason s1))"

subsection \<open>Well-formedness and example stores\<close>

text \<open>
  \<open>validItemAt s oid\<close>: the offered item, when there is one, exists and satisfies
  its schema.
\<close>

definition validItemAt :: "store \<Rightarrow> objectId option \<Rightarrow> bool" where
  "validItemAt s oid =
     (case oid of
        None \<Rightarrow> True
      | Some j \<Rightarrow> (case items s j of None \<Rightarrow> False | Some i \<Rightarrow> Item_validate i = []))"

text \<open>A user with a balance and the schema's default statistics, and a listing.\<close>

definition userWith :: "int \<Rightarrow> User" where
  "userWith p =
     \<lparr>points = p,
      stats = \<lparr>itemsListed = 0, itemsSwapped = 0, swapsCompleted = 0,
               totalPointsEarned = 0, totalPointsSpent = 0\<rparr>\<rparr>"

definition listing :: "objectId \<Rightarrow> int \<Rightarrow> item_status \<Rightarrow> Item" where
  "listing owner p st = \<lparr>uploader = owner, istatus = st, ipoints = p, swapRequests = []\<rparr>"

text \<open>
  The request that \<open>POST /api/swaps\<close> stores for user \<open>x\<close> on item \<open>i\<close> of user
  \<open>y\<close>, with status \<open>st\<close>.
\<close>

definition requestOf :: "objectId \<Rightarrow> objectId \<Rightarrow> objectId \<Rightarrow> swap_type \<Rightarrow> objectId option \<Rightarrow> int option \<Rightarrow> swap_status \<Rightarrow> SwapRequest" where
  "requestOf i x y ty oid pts st =
     \<lparr>item = i, requester = x, itemOwner = y, swapType = ty, status = st,
      offeredItem = oid, offeredPoints = pts, message = None, responseMessage = None,
      completedAt = None, cancelledBy = None, cancelledReason = None,
      pointsTransferred = False, transferAmount = None, createdAt = 0\<rparr>"

text \<open>
  Scenario A: user 1 (balance 50) asks for item 10 (20 points, owned by user 2, balance
  0) against 20 points. Scenario B: the same with balance 10.
\<close>

definition scenarioA :: store where
  "scenarioA =
     \<lparr>users = [1 \<mapsto> userWith 50, 2 \<mapsto> userWith 0],
      items = [10 \<mapsto> listing 2 20 Available],
      swaps = [(100, requestOf 10 1 2 Points None (Some 20) Pending)]\<rparr>"

definition scenarioB :: store where
  "scenarioB =
     \<lparr>users = [1 \<mapsto> userWith 10, 2 \<mapsto> userWith 0],
      items = [10 \<mapsto> listing 2 20 Available],
      swaps = [(100, requestOf 10 1 2 Points None (Some 20) Pending)]\<rparr>"

text \<open>Scenario C: user 1 offers their item 11 for item 10 of user 2.\<close>

definition scenarioC :: store where
  "scenarioC =
     \<lparr>users = [1 \<mapsto> userWith 50, 2 \<mapsto> userWith 0],
      items = [10 \<mapsto> listing 2 20 Available, 11 \<mapsto> listing 1 15 Available],
      swaps = [(100, requestOf 10 1 2 Direct (Some 11) None Pending)]\<rparr>"

text \<open>
  Two users, 1 and 3, each with a pending request (100 and 101) for the same item 10
  of user 2.
\<close>

definition twoRequests :: store where
  "twoRequests =
     \<lparr>users = [1 \<mapsto> userWith 50, 2 \<mapsto> userWith 0, 3 \<mapsto> userWith 50],
      items = [10 \<mapsto> listing 2 20 Available],
      swaps = [(100, requestOf 10 1 2 Points None (Some 20) Pending),
               (101, requestOf 10 3 2 Points None (Some 20) Pending)]\<rparr>"

text \<open>Three items of user 2 that are not available: removed, swapped, awaiting approval.\<close>

definition unavailableItems :: store where
  "unavailableItems =
     \<lparr>users = [2 \<mapsto> userWith 0],
      items = [10 \<mapsto> listing 2 20 Removed, 11 \<mapsto> listing 2 15 Swapped,
               12 \<mapsto> listing 2 30 ItemPending],
      swaps = []\<rparr>"

text \<open>A request that user 2 has rejected.\<close>

definition rejectedRequest :: store where
  "rejectedRequest =
     \<lparr>users = [1 \<mapsto> userWith 50, 2 \<mapsto> userWith 0],
      items = [10 \<mapsto> listing 2 20 Available],
      swaps = [(100, requestOf 10 1 2 Points None (Some 20) Rejected)]\<rparr>"


section \<open>Verification\<close>

subsection \<open>Sequencing, saving and the ledger\<close>

lemma andThen_simps [simp]:
  "andThen (Done, s) k = k s"
  "andThen (Threw e, s) k = (Threw e, s)"
  by (simp_all add: andThen_def)

lemma respond_simps [simp]:
  "respond ok bad code (Done, s) = (Success code ok, s)"
  "respond ok bad code (Threw e, s) = (ServerError bad e, s)"
  by (simp_all add: respond_def)

lemma onUser_simps [simp]:
  "onUser None m s = (Threw TypeError, s)"
  "onUser (Some u) m s = m u s"
  by (simp_all add: onUser_def)

lemma User_save_valid:
  "0 \<le> points this \<Longrightarrow>
   User_save uid this delta s = (Done, s\<lparr>users := (users s)(uid := map_option delta (users s uid))\<rparr>)"
  by (simp add: User_save_def User_validate_def)

lemma User_save_invalid:
  "points this < 0 \<Longrightarrow>
   User_save uid this delta s = (Threw (ValidationError [''Points cannot be negative'']), s)"
  by (simp add: User_save_def User_validate_def)

lemma spendPoints_stored:
  assumes "users s uid = Some cur" and "n \<le> points this"
  shows "spendPoints uid this n s =
     (Done, s\<lparr>users := (users s)(uid \<mapsto>
        cur\<lparr>points := points this - n,
            stats := (stats cur)\<lparr>totalPointsSpent := totalPointsSpent (stats this) + n\<rparr>\<rparr>)\<rparr>)"
  using assms by (simp add: spendPoints_def Let_def User_save_valid)

lemma addPoints_stored:
  assumes "users s uid = Some cur" and "0 \<le> points this + n"
  shows "addPoints uid this n s =
     (Done, s\<lparr>users := (users s)(uid \<mapsto>
        cur\<lparr>points := points this + n,
            stats := (stats cur)\<lparr>totalPointsEarned := totalPointsEarned (stats this) + n\<rparr>\<rparr>)\<rparr>)"
  using assms by (simp add: addPoints_def Let_def User_save_valid)

lemma SwapRequest_validate_Nil:
  "SwapRequest_validate r = [] \<longleftrightarrow>
     \<not> negative (offeredPoints r) \<and> \<not> tooLong 500 (message r) \<and>
     \<not> tooLong 500 (responseMessage r) \<and> \<not> tooLong 200 (cancelledReason r) \<and>
     \<not> negative (transferAmount r)"
  by (simp add: SwapRequest_validate_def)

lemma tooLong_trim:
  "optionalMaxLength n body \<Longrightarrow> \<not> tooLong n (map_option trim body)"
  by (cases body) (simp_all add: optionalMaxLength_def tooLong_def)

lemma SwapRequest_save_ok:
  "SwapRequest_validate this = [] \<Longrightarrow> SwapRequest_preSave this = None \<Longrightarrow>
   SwapRequest_save rid this s = (Done, s\<lparr>swaps := AList.update rid this (swaps s)\<rparr>)"
  by (simp add: SwapRequest_save_def)

lemma Item_save_ok:
  "Item_validate this = [] \<Longrightarrow>
   Item_save iid this delta s =
     (Done, s\<lparr>items := (items s)(iid := map_option delta (items s iid))\<rparr>)"
  by (simp add: Item_save_def)

lemma Item_validate_istatus [simp]:
  "Item_validate (this\<lparr>istatus := st\<rparr>) = Item_validate this"
  by (simp add: Item_validate_def)

lemma markAsSwapped_ok:
  "items s iid = Some this \<Longrightarrow> Item_validate this = [] \<Longrightarrow>
   markAsSwapped iid this s = (Done, s\<lparr>items := (items s)(iid \<mapsto> this\<lparr>istatus := Swapped\<rparr>)\<rparr>)"
  by (simp add: markAsSwapped_def Item_save_ok)

lemma accept_points_ok:
  assumes r: "offeredPoints r = Some n" "swapType r = Points" "0 < n"
    and ne: "requester r \<noteq> itemOwner r"
    and x: "users s (requester r) = Some x" "n \<le> points x"
    and y: "users s (itemOwner r) = Some y" "0 \<le> points y + n"
    and v: "SwapRequest_validate r = []" "\<not> tooLong 500 msg"
  shows "accept rid r msg s =
     (Done, s\<lparr>users := (users s)
                (requester r \<mapsto> x\<lparr>points := points x - n,
                     stats := (stats x)\<lparr>totalPointsSpent := totalPointsSpent (stats x) + n\<rparr>\<rparr>,
                 itemOwner r \<mapsto> y\<lparr>points := points y + n,
                     stats := (stats y)\<lparr>totalPointsEarned := totalPointsEarned (stats y) + n\<rparr>\<rparr>),
              swaps := AList.update rid
                (r\<lparr>status := Accepted, responseMessage := msg,
                   pointsTransferred := True, transferAmount := Some n\<rparr>) (swaps s)\<rparr>)"
proof -
  let ?r' = "r\<lparr>status := Accepted, responseMessage := msg,
                pointsTransferred := True, transferAmount := Some n\<rparr>"
  have val: "SwapRequest_validate ?r' = []"
    using v r by (simp add: SwapRequest_validate_Nil negative_def)
  have pre: "SwapRequest_preSave ?r' = None"
    using r ne by (simp add: SwapRequest_preSave_def falsy_def)
  show ?thesis
    using r ne x y
    by (simp add: accept_def Let_def spendPoints_stored addPoints_stored
          SwapRequest_save_ok [OF val pre])
qed



lemma markOffered_None [simp]: "markOfferedAsSwapped None s = (Done, s)"
  by (simp add: markOfferedAsSwapped_def)

lemma markOffered_Some:
  "items s j = Some offered \<Longrightarrow> Item_validate offered = [] \<Longrightarrow>
   markOfferedAsSwapped (Some j) s =
     (Done, s\<lparr>items := (items s)(j \<mapsto> offered\<lparr>istatus := Swapped\<rparr>)\<rparr>)"
  by (simp add: markOfferedAsSwapped_def findAndMarkAsSwapped_def markAsSwapped_ok)

lemma validItemAt_items:
  "items s' = items s \<Longrightarrow> validItemAt s' oid = validItemAt s oid"
  by (cases oid) (simp_all add: validItemAt_def)

lemma acceptRoute_after_accept:
  assumes req: "map_of (swaps s) rid = Some r" "status r = Pending"
    and body: "optionalMaxLength 500 body"
    and acc: "accept rid r (map_option trim body) s = (Done, s1)"
    and i: "items s1 (item r) = Some i" "Item_validate i = []"
    and u: "users s1 (uploader i) = Some u" "0 \<le> points u + ipoints i"
    and off: "validItemAt s1 (offeredItem r)"
  shows "\<exists>s'. acceptRoute (itemOwner r) rid body s =
               (Success 200 ''Swap request accepted successfully'', s') \<and>
          users s' = (users s1)(uploader i \<mapsto> u\<lparr>points := points u + ipoints i,
             stats := (stats u)\<lparr>totalPointsEarned := totalPointsEarned (stats u) + ipoints i\<rparr>\<rparr>) \<and>
          swaps s' = swaps s1 \<and>
          items s' (item r) = Some (i\<lparr>istatus := Swapped\<rparr>) \<and>
          (\<forall>j offered. offeredItem r = Some j \<longrightarrow> items s1 j = Some offered \<longrightarrow>
             items s' j = Some (offered\<lparr>istatus := Swapped\<rparr>))"
proof -
  let ?u' = "u\<lparr>points := points u + ipoints i,
               stats := (stats u)\<lparr>totalPointsEarned := totalPointsEarned (stats u) + ipoints i\<rparr>\<rparr>"
  define s2 where "s2 = s1\<lparr>items := (items s1)(item r \<mapsto> i\<lparr>istatus := Swapped\<rparr>)\<rparr>"
  define s3 where "s3 = s2\<lparr>users := (users s2)(uploader i \<mapsto> ?u')\<rparr>"
  have ip: "ipoints i \<noteq> 0"
    using i(2) by (simp add: Item_validate_def split: if_splits)
  have mark: "markAsSwapped (item r) i s1 = (Done, s2)"
    unfolding s2_def by (rule markAsSwapped_ok [OF i])
  have u2: "users s2 (uploader i) = Some u"
    using u(1) by (simp add: s2_def)
  have bonus: "addPoints (uploader i) u (ipoints i) s2 = (Done, s3)"
    unfolding s3_def by (rule addPoints_stored [OF u2 u(2)])
  have route: "acceptRoute (itemOwner r) rid body s =
      respond ''Swap request accepted successfully'' ''Failed to accept swap request'' 200
        (markOfferedAsSwapped (offeredItem r) s3)"
    using req body ip by (simp add: acceptRoute_def acc i(1) mark u2 bonus)
  show ?thesis
  proof (cases "offeredItem r")
    case None
    then show ?thesis
      by (simp add: route s3_def s2_def)
  next
    case (Some j)
    then obtain offered where o: "items s1 j = Some offered" "Item_validate offered = []"
      using off by (auto simp: validItemAt_def split: option.splits)
    show ?thesis
    proof (cases "j = item r")
      case True
      then have "items s3 j = Some (i\<lparr>istatus := Swapped\<rparr>)"
        by (simp add: s3_def s2_def)
      from markOffered_Some [OF this] i(2) o(1) i(1) True Some show ?thesis
        by (simp add: route s3_def s2_def)
    next
      case False
      then have "items s3 j = Some offered"
        using o(1) by (simp add: s3_def s2_def)
      from markOffered_Some [OF this o(2)] o(1) False Some show ?thesis
        by (simp add: route s3_def s2_def)
    qed
  qed
qed

lemma acceptRoute_points:
  assumes req: "map_of (swaps s) rid = Some r" "status r = Pending"
    and pts: "swapType r = Points" "offeredPoints r = Some n" "0 < n"
    and ne: "requester r \<noteq> itemOwner r"
    and x: "users s (requester r) = Some x" "n \<le> points x"
    and y: "users s (itemOwner r) = Some y" "0 \<le> points y"
    and i: "items s (item r) = Some i" "uploader i = itemOwner r" "Item_validate i = []"
    and off: "validItemAt s (offeredItem r)"
    and v: "SwapRequest_validate r = []" "optionalMaxLength 500 body"
  shows "\<exists>s'. acceptRoute (itemOwner r) rid body s =
               (Success 200 ''Swap request accepted successfully'', s') \<and>
         users s' (requester r) = Some (x\<lparr>points := points x - n,
             stats := (stats x)\<lparr>totalPointsSpent := totalPointsSpent (stats x) + n\<rparr>\<rparr>) \<and>
         users s' (itemOwner r) = Some (y\<lparr>points := points y + n + ipoints i,
             stats := (stats y)\<lparr>totalPointsEarned :=
                        totalPointsEarned (stats y) + n + ipoints i\<rparr>\<rparr>) \<and>
         items s' (item r) = Some (i\<lparr>istatus := Swapped\<rparr>) \<and>
         map_of (swaps s') rid = Some (r\<lparr>status := Accepted, responseMessage := map_option trim body,
             pointsTransferred := True, transferAmount := Some n\<rparr>)"
proof -
  let ?x' = "x\<lparr>points := points x - n,
               stats := (stats x)\<lparr>totalPointsSpent := totalPointsSpent (stats x) + n\<rparr>\<rparr>"
  let ?y1 = "y\<lparr>points := points y + n,
               stats := (stats y)\<lparr>totalPointsEarned := totalPointsEarned (stats y) + n\<rparr>\<rparr>"
  let ?r' = "r\<lparr>status := Accepted, responseMessage := map_option trim body,
               pointsTransferred := True, transferAmount := Some n\<rparr>"
  define s1 where "s1 = s\<lparr>users := (users s)(requester r \<mapsto> ?x', itemOwner r \<mapsto> ?y1),
               swaps := AList.update rid ?r' (swaps s)\<rparr>"
  have ip: "1 \<le> ipoints i"
    using i(3) by (simp add: Item_validate_def split: if_splits)
  have "0 \<le> points y + n"
    using y(2) pts(3) by simp
  then have acc: "accept rid r (map_option trim body) s = (Done, s1)"
    unfolding s1_def
    by (rule accept_points_ok [OF pts(2) pts(1) pts(3) ne x y(1) _ v(1) tooLong_trim [OF v(2)]])
  have i1: "items s1 (item r) = Some i"
    using i(1) by (simp add: s1_def)
  have y1: "users s1 (uploader i) = Some ?y1"
    by (simp add: s1_def i(2))
  have b: "0 \<le> points ?y1 + ipoints i"
    using y(2) pts(3) ip by simp
  have off1: "validItemAt s1 (offeredItem r)"
    using off validItemAt_items [of s1 s "offeredItem r"] by (simp add: s1_def)
  from acceptRoute_after_accept [OF req v(2) acc i1 i(3) y1 b off1]
  show ?thesis
    using ne by (auto simp: s1_def i(2) update_conv' add.assoc)
qed

subsection \<open>Accepting a points swap\<close>

text \<open>
  C1. For a pending points swap whose requester can pay, when the item owner accepts, the
  handler answers with success; the requester's balance goes down by \<open>offeredPoints\<close>
  (and \<open>totalPointsSpent\<close> up); the owner, who is the item's uploader, is credited
  \<open>offeredPoints\<close> plus the item's own \<open>points\<close>; the item's status becomes
  \<open>swapped\<close>; and the stored request is \<open>accepted\<close> with \<open>pointsTransferred\<close>
  set and \<open>transferAmount = offeredPoints\<close>. The stored documents are assumed to
  satisfy their schemas.
\<close>

theorem accept_points_swap:
  assumes "map_of (swaps s) rid = Some r" and "status r = Pending"
    and "swapType r = Points" and "offeredPoints r = Some n" and "0 < n"
    and "requester r \<noteq> itemOwner r"
    and "users s (requester r) = Some x" and "n \<le> points x"
    and "users s (itemOwner r) = Some y" and "0 \<le> points y"
    and "items s (item r) = Some i" and "uploader i = itemOwner r" and "Item_validate i = []"
    and "validItemAt s (offeredItem r)"
    and "SwapRequest_validate r = []" and "optionalMaxLength 500 body"
  shows "case acceptRoute (itemOwner r) rid body s of
           (resp, s') \<Rightarrow>
             resp = Success 200 ''Swap request accepted successfully'' \<and>
             users s' (requester r) =
               Some (x\<lparr>points := points x - n,
                       stats := (stats x)\<lparr>totalPointsSpent := totalPointsSpent (stats x) + n\<rparr>\<rparr>) \<and>
             users s' (itemOwner r) =
               Some (y\<lparr>points := points y + n + ipoints i,
                       stats := (stats y)\<lparr>totalPointsEarned :=
                                  totalPointsEarned (stats y) + n + ipoints i\<rparr>\<rparr>) \<and>
             items s' (item r) = Some (i\<lparr>istatus := Swapped\<rparr>) \<and>
             map_of (swaps s') rid =
               Some (r\<lparr>status := Accepted, responseMessage := map_option trim body,
                       pointsTransferred := True, transferAmount := Some n\<rparr>)"
  using acceptRoute_points [OF assms] by auto

text \<open>Scenario A: balance 50, 20 points offered, an item worth 20: 30 and 40.\<close>

theorem accept_points_swap_witness:
  "case acceptRoute 2 100 None scenarioA of
     (resp, s') \<Rightarrow>
       resp = Success 200 ''Swap request accepted successfully'' \<and>
       map_option points (users s' 1) = Some 30 \<and>
       map_option points (users s' 2) = Some 40 \<and>
       map_option istatus (items s' 10) = Some Swapped \<and>
       map_option status (map_of (swaps s') 100) = Some Accepted \<and>
       map_option pointsTransferred (map_of (swaps s') 100) = Some True \<and>
       map_option transferAmount (map_of (swaps s') 100) = Some (Some 20)"
proof -
  let ?r = "requestOf 10 1 2 Points None (Some 20) Pending"
  have "case acceptRoute (itemOwner ?r) 100 None scenarioA of
          (resp, s') \<Rightarrow>
            resp = Success 200 ''Swap request accepted successfully'' \<and>
            users s' (requester ?r) =
              Some ((userWith 50)\<lparr>points := points (userWith 50) - 20,
                      stats := (stats (userWith 50))\<lparr>totalPointsSpent :=
                                 totalPointsSpent (stats (userWith 50)) + 20\<rparr>\<rparr>) \<and>
            users s' (itemOwner ?r) =
              Some ((userWith 0)\<lparr>points := points (userWith 0) + 20 + ipoints (listing 2 20 Available),
                      stats := (stats (userWith 0))\<lparr>totalPointsEarned :=
                                 totalPointsEarned (stats (userWith 0)) + 20 +
                                 ipoints (listing 2 20 Available)\<rparr>\<rparr>) \<and>
            items s' (item ?r) = Some ((listing 2 20 Available)\<lparr>istatus := Swapped\<rparr>) \<and>
            map_of (swaps s') 100 =
              Some (?r\<lparr>status := Accepted, responseMessage := map_option trim None,
                      pointsTransferred := True, transferAmount := Some 20\<rparr>)"
    by (rule accept_points_swap)
      (simp_all add: scenarioA_def requestOf_def userWith_def listing_def validItemAt_def
        Item_validate_def SwapRequest_validate_def negative_def tooLong_def
        optionalMaxLength_def)
  then show ?thesis
    by (simp add: requestOf_def userWith_def listing_def split: prod.splits)
qed

text \<open>
  C2. For a pending points swap whose requester's balance is below \<open>offeredPoints\<close>
  when the owner accepts, \<open>accept\<close> throws \<open>Insufficient points for swap\<close>, the
  handler answers 500 with that error, and the store is the one it started from:
  the request is still pending, no balance and no item has changed.
\<close>

theorem accept_insufficient_funds:
  assumes "map_of (swaps s) rid = Some r" and "status r = Pending"
    and "swapType r = Points" and "offeredPoints r = Some n" and "0 < n"
    and "users s (requester r) = Some x" and "points x < n"
    and "optionalMaxLength 500 body"
  shows "acceptRoute (itemOwner r) rid body s =
           (ServerError ''Failed to accept swap request'' (Error ''Insufficient points for swap''), s)"
  using assms by (simp add: acceptRoute_def accept_def)

text \<open>Scenario B: the balance is 10, the offer 20.\<close>

theorem accept_insufficient_funds_witness:
  "acceptRoute 2 100 None scenarioB =
     (ServerError ''Failed to accept swap request'' (Error ''Insufficient points for swap''),
      scenarioB) \<and>
   map_option status (map_of (swaps scenarioB) 100) = Some Pending \<and>
   map_option istatus (items scenarioB 10) = Some Available"
proof -
  let ?r = "requestOf 10 1 2 Points None (Some 20) Pending"
  have "acceptRoute (itemOwner ?r) 100 None scenarioB =
          (ServerError ''Failed to accept swap request'' (Error ''Insufficient points for swap''),
           scenarioB)"
    by (rule accept_insufficient_funds [where x = "userWith 10" and n = 20])
      (simp_all add: scenarioB_def requestOf_def userWith_def optionalMaxLength_def)
  then show ?thesis
    by (simp add: requestOf_def scenarioB_def listing_def)
qed

subsection \<open>The ledger's debit and credit\<close>

text \<open>
  C7. \<open>spendPoints\<close>, called on a user document as loaded from the store, throws
  \<open>Insufficient points\<close> exactly when the balance is below the amount, and then the
  store (balance and \<open>totalPointsSpent\<close> included) is unchanged; otherwise it
  resolves, the balance is lower by the amount and \<open>totalPointsSpent\<close> higher by
  it. The schema's validator never rejects this save: the guard keeps the new balance
  at or above zero.
\<close>

theorem spendPoints_debit:
  assumes "users s uid = Some this"
  shows "((fst (spendPoints uid this n s) = Threw (Error ''Insufficient points'')) = (points this < n)) \<and>
         spendPoints uid this n s =
           (if points this < n then (Threw (Error ''Insufficient points''), s)
            else (Done, s\<lparr>users := (users s)(uid \<mapsto>
                    this\<lparr>points := points this - n,
                         stats := (stats this)\<lparr>totalPointsSpent :=
                                    totalPointsSpent (stats this) + n\<rparr>\<rparr>)\<rparr>))"
proof (cases "points this < n")
  case True
  then show ?thesis by (simp add: spendPoints_def)
next
  case False
  then have "n \<le> points this" by simp
  from spendPoints_stored [OF assms this] False show ?thesis by simp
qed

text \<open>A debit of 20 from a balance of 10 is refused; from a balance of 50 it leaves 30.\<close>

theorem spendPoints_debit_witness:
  "spendPoints 1 (userWith 10) 20 scenarioB = (Threw (Error ''Insufficient points''), scenarioB) \<and>
   fst (spendPoints 1 (userWith 50) 20 scenarioA) = Done \<and>
   map_option points (users (snd (spendPoints 1 (userWith 50) 20 scenarioA)) 1) = Some 30 \<and>
   map_option (totalPointsSpent \<circ> stats) (users (snd (spendPoints 1 (userWith 50) 20 scenarioA)) 1)
     = Some 20"
proof -
  have b: "users scenarioB 1 = Some (userWith 10)"
    by (simp add: scenarioB_def)
  have a: "users scenarioA 1 = Some (userWith 50)"
    by (simp add: scenarioA_def)
  from spendPoints_debit [OF b, of 20] spendPoints_debit [OF a, of 20]
  show ?thesis
    by (simp add: userWith_def)
qed

text \<open>
  C10 (amended). \<open>addPoints\<close> has no check on its amount. Called on a user document as
  loaded from the store (its balance not negative, as the schema requires), it adds the
  amount, of any sign, to the balance and to \<open>totalPointsEarned\<close> whenever the new
  balance is not negative, so a negative credit lowers the balance without passing
  through \<open>spendPoints\<close>. When the new balance would be negative the schema's
  \<open>min: 0\<close> validator rejects the save and the store is unchanged.
\<close>

theorem addPoints_credit:
  assumes "users s uid = Some this" and "0 \<le> points this"
  shows "addPoints uid this n s =
           (if points this + n < 0
            then (Threw (ValidationError [''Points cannot be negative'']), s)
            else (Done, s\<lparr>users := (users s)(uid \<mapsto>
                    this\<lparr>points := points this + n,
                         stats := (stats this)\<lparr>totalPointsEarned :=
                                    totalPointsEarned (stats this) + n\<rparr>\<rparr>)\<rparr>))"
proof (cases "points this + n < 0")
  case True
  then show ?thesis by (simp add: addPoints_def Let_def User_save_invalid)
next
  case False
  then have "0 \<le> points this + n" by simp
  from addPoints_stored [OF assms(1) this] False show ?thesis by simp
qed

text \<open>A credit of \<open>-20\<close> on a balance of 50 leaves 30 and \<open>totalPointsEarned = -20\<close>.\<close>

theorem addPoints_credit_witness:
  "fst (addPoints 1 (userWith 50) (- 20) scenarioA) = Done \<and>
   map_option points (users (snd (addPoints 1 (userWith 50) (- 20) scenarioA)) 1) = Some 30 \<and>
   map_option (totalPointsEarned \<circ> stats)
     (users (snd (addPoints 1 (userWith 50) (- 20) scenarioA)) 1) = Some (- 20)"
proof -
  have a: "users scenarioA 1 = Some (userWith 50)"
    by (simp add: scenarioA_def)
  have b: "0 \<le> points (userWith 50)"
    by (simp add: userWith_def)
  from addPoints_credit [OF a b, of "- 20"] show ?thesis
    by (simp add: userWith_def)
qed

text \<open>
  The claim as first stated (every amount is added) fails: a credit of \<open>-60\<close> on a
  balance of 50 is rejected and the balance stays 50.
\<close>

theorem addPoints_every_amount_counterexample:
  "map_option points (users scenarioA 1) = Some 50 \<and>
   addPoints 1 (userWith 50) (- 60) scenarioA =
     (Threw (ValidationError [''Points cannot be negative'']), scenarioA)"
  by (simp add: scenarioA_def userWith_def addPoints_def Let_def User_save_def User_validate_def)

subsection \<open>The availability tracker\<close>

text \<open>
  C4 (amended). \<open>markAsSwapped\<close> does not look at the item's current status: called on
  an item as loaded from the store, of any status (pending, available, swapped or
  removed), whose document satisfies the schema, it resolves, and the stored item is
  the same item with status \<open>swapped\<close>. There is no \<open>InvalidItemState\<close>.
\<close>

theorem markAsSwapped_any_status:
  assumes "items s iid = Some this" and "Item_validate this = []"
  shows "markAsSwapped iid this s =
           (Done, s\<lparr>items := (items s)(iid \<mapsto> this\<lparr>istatus := Swapped\<rparr>)\<rparr>) \<and>
         map_option istatus (items (snd (markAsSwapped iid this s)) iid) = Some Swapped"
  using assms by (simp add: markAsSwapped_def Item_save_def)

text \<open>A removed item, a swapped one and one awaiting approval are all marked.\<close>

theorem markAsSwapped_any_status_witness:
  "items unavailableItems 10 = Some (listing 2 20 Removed) \<and>
   items unavailableItems 11 = Some (listing 2 15 Swapped) \<and>
   items unavailableItems 12 = Some (listing 2 30 ItemPending) \<and>
   markAsSwapped 10 (listing 2 20 Removed) unavailableItems =
     (Done, unavailableItems\<lparr>items := (items unavailableItems)(10 \<mapsto> listing 2 20 Swapped)\<rparr>) \<and>
   markAsSwapped 11 (listing 2 15 Swapped) unavailableItems =
     (Done, unavailableItems\<lparr>items := (items unavailableItems)(11 \<mapsto> listing 2 15 Swapped)\<rparr>) \<and>
   markAsSwapped 12 (listing 2 30 ItemPending) unavailableItems =
     (Done, unavailableItems\<lparr>items := (items unavailableItems)(12 \<mapsto> listing 2 30 Swapped)\<rparr>)"
proof -
  have l: "items unavailableItems 10 = Some (listing 2 20 Removed)"
    "items unavailableItems 11 = Some (listing 2 15 Swapped)"
    "items unavailableItems 12 = Some (listing 2 30 ItemPending)"
    by (simp_all add: unavailableItems_def)
  have v: "Item_validate (listing 2 20 Removed) = []" "Item_validate (listing 2 15 Swapped) = []"
    "Item_validate (listing 2 30 ItemPending) = []"
    by (simp_all add: listing_def Item_validate_def)
  from markAsSwapped_any_status [OF l(1) v(1)] markAsSwapped_any_status [OF l(2) v(2)]
    markAsSwapped_any_status [OF l(3) v(3)] l
  show ?thesis
    by (simp add: listing_def)
qed

text \<open>
  The claim as first stated (failure on every status but \<open>available\<close>) fails on the
  stored removed item: the call resolves and the item is stored as \<open>swapped\<close>.
\<close>

theorem markAsSwapped_removed_counterexample:
  "items unavailableItems 10 = Some (listing 2 20 Removed) \<and>
   istatus (listing 2 20 Removed) = Removed \<and>
   fst (markAsSwapped 10 (listing 2 20 Removed) unavailableItems) = Done \<and>
   map_option istatus (items (snd (markAsSwapped 10 (listing 2 20 Removed) unavailableItems)) 10)
     = Some Swapped"
  by (simp add: unavailableItems_def listing_def markAsSwapped_def Item_save_def Item_validate_def)

subsection \<open>Accepting a direct swap, and accepting without an available item\<close>

text \<open>Unfolding the whole model, to evaluate it on an example store.\<close>

lemmas model_defs = andThen_def respond_def optionalMaxLength_def trim_def isSpace_def
  User_validate_def Item_validate_def tooLong_def negative_def SwapRequest_validate_def falsy_def
  SwapRequest_preSave_def User_save_def Item_save_def SwapRequest_save_def addPoints_def
  spendPoints_def incrementSwapsCompleted_def markAsSwapped_def findAndMarkAsSwapped_def
  markOfferedAsSwapped_def onUser_def accept_def reject_def complete_def cancel_def isExpired_def
  canBeCancelled_def acceptRoute_def rejectRoute_def completeRoute_def cancelRoute_def
  validItemAt_def userWith_def listing_def requestOf_def Let_def

lemma User_save_items [simp]: "items (snd (User_save uid this d s)) = items s"
  by (simp add: User_save_def split: list.splits)

lemma addPoints_items [simp]: "items (snd (addPoints uid this n s)) = items s"
  by (simp add: addPoints_def Let_def)

lemma spendPoints_items [simp]: "items (snd (spendPoints uid this n s)) = items s"
  by (simp add: spendPoints_def Let_def)

lemma SwapRequest_save_items [simp]: "items (snd (SwapRequest_save rid this s)) = items s"
  by (simp add: SwapRequest_save_def split: list.splits option.splits)

lemma andThen_items:
  assumes "items (snd m) = items s"
    and "\<And>s1. items s1 = items s \<Longrightarrow> items (snd (k s1)) = items s"
  shows "items (snd (andThen m k)) = items s"
  using assms by (cases m) (auto simp: andThen_def split: outcome.splits)

lemma onUser_items:
  assumes "\<And>u. items (snd (f u s1)) = items s" and "items s1 = items s"
  shows "items (snd (onUser doc f s1)) = items s"
  using assms by (cases doc) simp_all

lemma accept_items: "items (snd (accept rid r msg s)) = items s"
  unfolding accept_def Let_def
  by (auto split: option.splits intro!: andThen_items onUser_items simp del: andThen_simps)

lemma accept_direct_ok:
  assumes "swapType r = Direct" and "offeredItem r = Some j" and "requester r \<noteq> itemOwner r"
    and "SwapRequest_validate r = []" and "\<not> tooLong 500 msg"
  shows "accept rid r msg s =
           (Done, s\<lparr>swaps := AList.update rid (r\<lparr>status := Accepted, responseMessage := msg\<rparr>)
                               (swaps s)\<rparr>)"
proof -
  let ?r' = "r\<lparr>status := Accepted, responseMessage := msg\<rparr>"
  have val: "SwapRequest_validate ?r' = []"
    using assms(4,5) by (simp add: SwapRequest_validate_Nil)
  have pre: "SwapRequest_preSave ?r' = None"
    using assms(2,3) by (simp add: SwapRequest_preSave_def)
  show ?thesis
    using assms(1) by (cases "offeredPoints r") (simp_all add: accept_def SwapRequest_save_ok [OF val pre])
qed

text \<open>
  C3 (amended). For a pending direct swap, when the item owner accepts, the requested
  item and the offered item both become \<open>swapped\<close> and no points move between the
  requester and the owner (the request is stored as accepted with
  \<open>pointsTransferred\<close> as it was). The only balance that changes is that of the
  requested item's uploader, who is credited the item's \<open>points\<close> as the listing
  bonus that every accepted swap pays.
\<close>

theorem accept_direct_swap:
  assumes "map_of (swaps s) rid = Some r" and "status r = Pending"
    and "swapType r = Direct" and "offeredItem r = Some j"
    and "requester r \<noteq> itemOwner r"
    and "items s (item r) = Some i" and "Item_validate i = []"
    and "items s j = Some offered" and "Item_validate offered = []"
    and "users s (uploader i) = Some u" and "0 \<le> points u"
    and "SwapRequest_validate r = []" and "optionalMaxLength 500 body"
  shows "case acceptRoute (itemOwner r) rid body s of
           (resp, s') \<Rightarrow>
             resp = Success 200 ''Swap request accepted successfully'' \<and>
             items s' (item r) = Some (i\<lparr>istatus := Swapped\<rparr>) \<and>
             items s' j = Some (offered\<lparr>istatus := Swapped\<rparr>) \<and>
             users s' = (users s)(uploader i \<mapsto>
               u\<lparr>points := points u + ipoints i,
                  stats := (stats u)\<lparr>totalPointsEarned :=
                             totalPointsEarned (stats u) + ipoints i\<rparr>\<rparr>) \<and>
             map_of (swaps s') rid =
               Some (r\<lparr>status := Accepted, responseMessage := map_option trim body\<rparr>)"
proof -
  define s1 where "s1 = s\<lparr>swaps := AList.update rid
      (r\<lparr>status := Accepted, responseMessage := map_option trim body\<rparr>) (swaps s)\<rparr>"
  have acc: "accept rid r (map_option trim body) s = (Done, s1)"
    unfolding s1_def
    by (rule accept_direct_ok [OF assms(3,4,5,12) tooLong_trim [OF assms(13)]])
  have ip: "0 \<le> points u + ipoints i"
    using assms(7,11) by (simp add: Item_validate_def split: if_splits)
  have i1: "items s1 (item r) = Some i" and j1: "items s1 j = Some offered"
    and u1: "users s1 (uploader i) = Some u"
    using assms(6,8,10) by (simp_all add: s1_def)
  have off: "validItemAt s1 (offeredItem r)"
    using assms(4,9) j1 by (simp add: validItemAt_def)
  from acceptRoute_after_accept [OF assms(1,2,13) acc i1 assms(7) u1 ip off] assms(4) j1
  show ?thesis
    by (auto simp: s1_def update_conv')
qed

text \<open>Scenario C: both items are swapped, user 1 keeps 50, user 2 goes from 0 to 20.\<close>

theorem accept_direct_swap_witness:
  "case acceptRoute 2 100 None scenarioC of
     (resp, s') \<Rightarrow>
       resp = Success 200 ''Swap request accepted successfully'' \<and>
       map_option istatus (items s' 10) = Some Swapped \<and>
       map_option istatus (items s' 11) = Some Swapped \<and>
       map_option points (users s' 1) = Some 50 \<and>
       map_option points (users s' 2) = Some 20 \<and>
       map_option pointsTransferred (map_of (swaps s') 100) = Some False"
proof -
  let ?r = "requestOf 10 1 2 Direct (Some 11) None Pending"
  have "case acceptRoute (itemOwner ?r) 100 None scenarioC of
          (resp, s') \<Rightarrow>
            resp = Success 200 ''Swap request accepted successfully'' \<and>
            items s' (item ?r) = Some ((listing 2 20 Available)\<lparr>istatus := Swapped\<rparr>) \<and>
            items s' 11 = Some ((listing 1 15 Available)\<lparr>istatus := Swapped\<rparr>) \<and>
            users s' = (users scenarioC)(uploader (listing 2 20 Available) \<mapsto>
              (userWith 0)\<lparr>points := points (userWith 0) + ipoints (listing 2 20 Available),
                 stats := (stats (userWith 0))\<lparr>totalPointsEarned :=
                            totalPointsEarned (stats (userWith 0)) +
                            ipoints (listing 2 20 Available)\<rparr>\<rparr>) \<and>
            map_of (swaps s') 100 =
              Some (?r\<lparr>status := Accepted, responseMessage := map_option trim None\<rparr>)"
    by (rule accept_direct_swap) (simp_all add: scenarioC_def model_defs)
  then show ?thesis
    by (simp add: scenarioC_def requestOf_def userWith_def listing_def split: prod.splits)
qed

text \<open>
  The claim as first stated (no balance changes) fails in Scenario C: the owner's
  balance is 0 before the accept and 20 after it.
\<close>

theorem accept_direct_swap_counterexample:
  "map_option points (users scenarioC 2) = Some 0 \<and>
   map_option points (users (snd (acceptRoute 2 100 None scenarioC)) 2) = Some 20"
  by (simp add: scenarioC_def model_defs)

text \<open>
  C9. The accept handler checks the request's status and the caller, and never reads
  the status of the requested item: below the stored item has an arbitrary status
  \<open>st\<close>. For every pending request, a direct swap with an offered item (then
  \<open>n = 0\<close>) or a points swap of \<open>n\<close> points that the requester can pay, the handler
  succeeds, the request is stored as \<open>accepted\<close>, the item is stored as \<open>swapped\<close>
  whatever it was, and the owner is credited \<open>n\<close> and the item's \<open>points\<close>, the
  listing bonus, once more.
\<close>

theorem accept_ignores_item_status:
  assumes "map_of (swaps s) rid = Some r" and "status r = Pending"
    and "requester r \<noteq> itemOwner r"
    and "(swapType r = Direct \<and> offeredItem r \<noteq> None \<and> n = 0) \<or>
         (swapType r = Points \<and> offeredPoints r = Some n \<and> 0 < n \<and>
          (\<exists>x. users s (requester r) = Some x \<and> n \<le> points x))"
    and "users s (itemOwner r) = Some y" and "0 \<le> points y"
    and "items s (item r) = Some (i\<lparr>istatus := st\<rparr>)"
    and "uploader i = itemOwner r" and "Item_validate i = []"
    and "validItemAt s (offeredItem r)"
    and "SwapRequest_validate r = []" and "optionalMaxLength 500 body"
  shows "case acceptRoute (itemOwner r) rid body s of
           (resp, s') \<Rightarrow>
             resp = Success 200 ''Swap request accepted successfully'' \<and>
             map_option status (map_of (swaps s') rid) = Some Accepted \<and>
             items s' (item r) = Some (i\<lparr>istatus := Swapped\<rparr>) \<and>
             users s' (itemOwner r) =
               Some (y\<lparr>points := points y + n + ipoints i,
                       stats := (stats y)\<lparr>totalPointsEarned :=
                                  totalPointsEarned (stats y) + n + ipoints i\<rparr>\<rparr>)"
proof -
  let ?i = "i\<lparr>istatus := st\<rparr>"
  have up: "uploader ?i = itemOwner r" and iv: "Item_validate ?i = []"
    using assms(8,9) by simp_all
  from assms(4) show ?thesis
  proof
    assume d: "swapType r = Direct \<and> offeredItem r \<noteq> None \<and> n = 0"
    then obtain j where j: "offeredItem r = Some j"
      by auto
    define s1 where "s1 = s\<lparr>swaps := AList.update rid
        (r\<lparr>status := Accepted, responseMessage := map_option trim body\<rparr>) (swaps s)\<rparr>"
    have acc: "accept rid r (map_option trim body) s = (Done, s1)"
      unfolding s1_def using d
      by (intro accept_direct_ok [OF _ j assms(3,11) tooLong_trim [OF assms(12)]]) simp
    have ip: "0 \<le> points y + ipoints ?i"
      using assms(6,9) by (simp add: Item_validate_def split: if_splits)
    have i1: "items s1 (item r) = Some ?i" and u1: "users s1 (uploader ?i) = Some y"
      using assms(5,7) up by (simp_all add: s1_def)
    have off: "validItemAt s1 (offeredItem r)"
      using assms(10) validItemAt_items [of s1 s "offeredItem r"] by (simp add: s1_def)
    from acceptRoute_after_accept [OF assms(1,2,12) acc i1 iv u1 ip off] d
    show ?thesis
      by (auto simp: s1_def update_conv' assms(8))
  next
    assume p: "swapType r = Points \<and> offeredPoints r = Some n \<and> 0 < n \<and>
               (\<exists>x. users s (requester r) = Some x \<and> n \<le> points x)"
    then obtain x where x: "users s (requester r) = Some x" "n \<le> points x"
      by auto
    from p have pts: "swapType r = Points" "offeredPoints r = Some n" "0 < n"
      by simp_all
    from acceptRoute_points [OF assms(1,2) pts assms(3) x assms(5,6,7) up iv assms(10,11,12)]
    show ?thesis
      by auto
  qed
qed

text \<open>
  Two pending requests for one item are both accepted. After the first accept the item
  is \<open>swapped\<close>, request 100 accepted and request 101 still pending; the second
  accept, on the swapped item, succeeds too: both requests are then stored as accepted
  and the owner's balance has gone 0, 40, 80 (two transfers of 20 and the bonus of 20
  twice).
\<close>

theorem accept_ignores_item_status_witness:
  "fst (acceptRoute 2 100 None twoRequests) = Success 200 ''Swap request accepted successfully'' \<and>
   map_option istatus (items (snd (acceptRoute 2 100 None twoRequests)) 10) = Some Swapped \<and>
   map_option points (users (snd (acceptRoute 2 100 None twoRequests)) 2) = Some 40 \<and>
   map_option status (map_of (swaps (snd (acceptRoute 2 100 None twoRequests))) 100) = Some Accepted \<and>
   map_option status (map_of (swaps (snd (acceptRoute 2 100 None twoRequests))) 101) = Some Pending \<and>
   fst (acceptRoute 2 101 None (snd (acceptRoute 2 100 None twoRequests)))
     = Success 200 ''Swap request accepted successfully'' \<and>
   map_option status (map_of (swaps
     (snd (acceptRoute 2 101 None (snd (acceptRoute 2 100 None twoRequests))))) 100) = Some Accepted \<and>
   map_option status (map_of (swaps
     (snd (acceptRoute 2 101 None (snd (acceptRoute 2 100 None twoRequests))))) 101) = Some Accepted \<and>
   map_option istatus (items
     (snd (acceptRoute 2 101 None (snd (acceptRoute 2 100 None twoRequests)))) 10) = Some Swapped \<and>
   map_option points
     (users (snd (acceptRoute 2 101 None (snd (acceptRoute 2 100 None twoRequests)))) 2) = Some 80"
proof -
  let ?r = "requestOf 10 3 2 Points None (Some 20) Pending"
  let ?i = "listing 2 20 Available"
  let ?y = "(userWith 0)\<lparr>points := 40, stats := (stats (userWith 0))\<lparr>totalPointsEarned := 40\<rparr>\<rparr>"
  define s1 where "s1 = snd (acceptRoute 2 100 None twoRequests)"
  have first: "fst (acceptRoute 2 100 None twoRequests)
                 = Success 200 ''Swap request accepted successfully''"
    "map_option status (map_of (swaps s1) 100) = Some Accepted"
    by (simp_all add: s1_def twoRequests_def model_defs)
  have r: "map_of (swaps s1) 101 = Some ?r"
    and y: "users s1 (itemOwner ?r) = Some ?y"
    and i: "items s1 (item ?r) = Some (?i\<lparr>istatus := Swapped\<rparr>)"
    and x: "users s1 (requester ?r) = Some (userWith 50)"
    and off: "validItemAt s1 (offeredItem ?r)"
    by (simp_all add: s1_def twoRequests_def model_defs)
  have kind: "(swapType ?r = Direct \<and> offeredItem ?r \<noteq> None \<and> (20::int) = 0) \<or>
         (swapType ?r = Points \<and> offeredPoints ?r = Some 20 \<and> (0::int) < 20 \<and>
          (\<exists>x. users s1 (requester ?r) = Some x \<and> 20 \<le> points x))"
    using x by (simp add: requestOf_def userWith_def)
  have second: "case acceptRoute (itemOwner ?r) 101 None s1 of
          (resp, s') \<Rightarrow>
            resp = Success 200 ''Swap request accepted successfully'' \<and>
            map_option status (map_of (swaps s') 101) = Some Accepted \<and>
            items s' (item ?r) = Some (?i\<lparr>istatus := Swapped\<rparr>) \<and>
            users s' (itemOwner ?r) =
              Some (?y\<lparr>points := points ?y + 20 + ipoints ?i,
                      stats := (stats ?y)\<lparr>totalPointsEarned :=
                                 totalPointsEarned (stats ?y) + 20 + ipoints ?i\<rparr>\<rparr>)"
    by (rule accept_ignores_item_status [OF r _ _ kind y _ i _ _ off])
      (simp_all add: requestOf_def listing_def userWith_def optionalMaxLength_def
        Item_validate_def SwapRequest_validate_def negative_def tooLong_def)
  have other: "map_option status (map_of (swaps (snd (acceptRoute 2 101 None s1))) 100)
                 = Some Accepted"
    by (simp add: s1_def twoRequests_def model_defs)
  from second first i r y other show ?thesis
    by (simp add: s1_def [symmetric] requestOf_def listing_def userWith_def
        split: prod.splits)
qed

subsection \<open>Cancelling after an accept\<close>

lemma SwapRequest_preSave_cong:
  "offeredItem r' = offeredItem r \<Longrightarrow> offeredPoints r' = offeredPoints r \<Longrightarrow>
   requester r' = requester r \<Longrightarrow> itemOwner r' = itemOwner r \<Longrightarrow>
   SwapRequest_preSave r' = SwapRequest_preSave r"
  by (simp add: SwapRequest_preSave_def)

lemma cancel_reverses:
  assumes t: "transferAmount r = Some n" "pointsTransferred r" "0 < n"
    and ne: "requester r \<noteq> itemOwner r"
    and x: "users s (requester r) = Some x" "0 \<le> points x + n"
    and y: "users s (itemOwner r) = Some y" "n \<le> points y"
    and v: "SwapRequest_validate r = []" "\<not> tooLong 200 reason" "SwapRequest_preSave r = None"
  shows "cancel rid r uid reason s =
     (Done, s\<lparr>users := (users s)
                (requester r \<mapsto> x\<lparr>points := points x + n,
                     stats := (stats x)\<lparr>totalPointsEarned := totalPointsEarned (stats x) + n\<rparr>\<rparr>,
                 itemOwner r \<mapsto> y\<lparr>points := points y - n,
                     stats := (stats y)\<lparr>totalPointsSpent := totalPointsSpent (stats y) + n\<rparr>\<rparr>),
              swaps := AList.update rid
                (r\<lparr>status := Cancelled, cancelledBy := Some uid, cancelledReason := reason,
                   pointsTransferred := False\<rparr>) (swaps s)\<rparr>)"
proof -
  let ?r' = "r\<lparr>status := Cancelled, cancelledBy := Some uid, cancelledReason := reason,
                pointsTransferred := False\<rparr>"
  have val: "SwapRequest_validate ?r' = []"
    using v(1,2) by (simp add: SwapRequest_validate_Nil)
  have pre: "SwapRequest_preSave ?r' = None"
    using v(3) SwapRequest_preSave_cong [of ?r' r] by simp
  show ?thesis
    using t ne x y
    by (simp add: cancel_def Let_def spendPoints_stored addPoints_stored
          SwapRequest_save_ok [OF val pre])
qed

text \<open>
  C5 (amended). For a points swap accepted through the accept handler and then
  cancelled, the reversal in \<open>cancel\<close> gives \<open>transferAmount\<close> back to the requester,
  whose balance is again what it was before the accept, and takes \<open>transferAmount\<close>
  from the item owner, whose balance ends at its value before the accept plus the
  listing bonus (the item's \<open>points\<close>) that the accept handler paid: the reversal
  does not take the bonus back.
\<close>

theorem cancel_after_accept:
  assumes "map_of (swaps s) rid = Some r" and "status r = Pending"
    and "swapType r = Points" and "offeredPoints r = Some n" and "0 < n"
    and "requester r \<noteq> itemOwner r"
    and "users s (requester r) = Some x" and "n \<le> points x"
    and "users s (itemOwner r) = Some y" and "0 \<le> points y"
    and "items s (item r) = Some i" and "uploader i = itemOwner r" and "Item_validate i = []"
    and "validItemAt s (offeredItem r)"
    and "SwapRequest_validate r = []" and "optionalMaxLength 500 body"
    and "\<not> tooLong 200 reason"
  shows "case acceptThenCancel (itemOwner r) rid body reason s of
           (out, s') \<Rightarrow>
             out = Done \<and>
             map_option points (users s' (requester r)) = Some (points x) \<and>
             map_option points (users s' (itemOwner r)) = Some (points y + ipoints i) \<and>
             map_option status (map_of (swaps s') rid) = Some Cancelled \<and>
             map_option pointsTransferred (map_of (swaps s') rid) = Some False"
proof -
  let ?x1 = "x\<lparr>points := points x - n,
               stats := (stats x)\<lparr>totalPointsSpent := totalPointsSpent (stats x) + n\<rparr>\<rparr>"
  let ?y1 = "y\<lparr>points := points y + n + ipoints i,
               stats := (stats y)\<lparr>totalPointsEarned :=
                          totalPointsEarned (stats y) + n + ipoints i\<rparr>\<rparr>"
  let ?r1 = "r\<lparr>status := Accepted, responseMessage := map_option trim body,
               pointsTransferred := True, transferAmount := Some n\<rparr>"
  obtain s1 where route: "acceptRoute (itemOwner r) rid body s =
        (Success 200 ''Swap request accepted successfully'', s1)"
    and x1: "users s1 (requester ?r1) = Some ?x1"
    and y1: "users s1 (itemOwner ?r1) = Some ?y1"
    and r1: "map_of (swaps s1) rid = Some ?r1"
    using acceptRoute_points [OF assms(1-16)] by auto
  have ip: "1 \<le> ipoints i"
    using assms(13) by (simp add: Item_validate_def split: if_splits)
  have val: "SwapRequest_validate ?r1 = []"
    using assms(15,5) tooLong_trim [OF assms(16)] by (simp add: SwapRequest_validate_Nil negative_def)
  have pre: "SwapRequest_preSave ?r1 = None"
    using assms(4,5,6) by (simp add: SwapRequest_preSave_def falsy_def)
  have ne: "requester ?r1 \<noteq> itemOwner ?r1"
    using assms(6) by simp
  have bx: "0 \<le> points ?x1 + n" and by': "n \<le> points ?y1"
    using assms(5,8,10) ip by simp_all
  have "cancel rid ?r1 (requester ?r1) reason s1 =
     (Done, s1\<lparr>users := (users s1)
                (requester ?r1 \<mapsto> ?x1\<lparr>points := points ?x1 + n,
                     stats := (stats ?x1)\<lparr>totalPointsEarned := totalPointsEarned (stats ?x1) + n\<rparr>\<rparr>,
                 itemOwner ?r1 \<mapsto> ?y1\<lparr>points := points ?y1 - n,
                     stats := (stats ?y1)\<lparr>totalPointsSpent := totalPointsSpent (stats ?y1) + n\<rparr>\<rparr>),
              swaps := AList.update rid
                (?r1\<lparr>status := Cancelled, cancelledBy := Some (requester ?r1), cancelledReason := reason,
                   pointsTransferred := False\<rparr>) (swaps s1)\<rparr>)"
    by (rule cancel_reverses [OF _ _ assms(5) ne x1 bx y1 by' val assms(17) pre]) simp_all
  then show ?thesis
    using assms(6) by (simp add: acceptThenCancel_def route r1 update_conv')
qed

text \<open>Scenario A, then cancelled: the requester is back at 50, the owner keeps 20.\<close>

theorem cancel_after_accept_witness:
  "case acceptThenCancel 2 100 None None scenarioA of
     (out, s') \<Rightarrow>
       out = Done \<and>
       map_option points (users s' 1) = Some 50 \<and>
       map_option points (users s' 2) = Some 20 \<and>
       map_option status (map_of (swaps s') 100) = Some Cancelled \<and>
       map_option pointsTransferred (map_of (swaps s') 100) = Some False"
proof -
  let ?r = "requestOf 10 1 2 Points None (Some 20) Pending"
  have "case acceptThenCancel (itemOwner ?r) 100 None None scenarioA of
     (out, s') \<Rightarrow>
       out = Done \<and>
       map_option points (users s' (requester ?r)) = Some (points (userWith 50)) \<and>
       map_option points (users s' (itemOwner ?r))
         = Some (points (userWith 0) + ipoints (listing 2 20 Available)) \<and>
       map_option status (map_of (swaps s') 100) = Some Cancelled \<and>
       map_option pointsTransferred (map_of (swaps s') 100) = Some False"
    by (rule cancel_after_accept [where n = 20])
      (simp_all add: scenarioA_def requestOf_def userWith_def listing_def validItemAt_def
        Item_validate_def SwapRequest_validate_def negative_def tooLong_def
        optionalMaxLength_def)
  then show ?thesis
    by (simp add: requestOf_def userWith_def listing_def split: prod.splits)
qed

text \<open>
  The claim as first stated (both balances restored) fails in Scenario A: the owner
  has 0 before the accept and 20 after the cancel.
\<close>

theorem cancel_after_accept_counterexample:
  "map_option points (users scenarioA 2) = Some 0 \<and>
   fst (acceptThenCancel 2 100 None None scenarioA) = Done \<and>
   map_option points (users (snd (acceptThenCancel 2 100 None None scenarioA)) 2) = Some 20"
  by (simp add: acceptThenCancel_def scenarioA_def model_defs)

subsection \<open>Terminal states\<close>

text \<open>
  C6 (amended). For a stored request that is rejected, completed or cancelled, each of
  the four handlers (accept, reject, complete, cancel) fails and returns the store as
  it was, so the status never changes again. The failure is the handler's
  invalid-transition answer (400: no longer pending, must be accepted before
  completion, cannot be cancelled) when the request body is valid and the caller is the
  party allowed to call that handler; an invalid body is answered first with 400
  \<open>Validation errors\<close>, and any other caller with 403 not authorized.
\<close>

theorem terminal_request_stays:
  assumes "map_of (swaps s) rid = Some r"
    and "status r = Rejected \<or> status r = Completed \<or> status r = Cancelled"
  shows "acceptRoute caller rid body s =
           (if \<not> optionalMaxLength 500 body then Failure 400 ''Validation errors''
            else if itemOwner r \<noteq> caller
            then Failure 403 ''Not authorized to accept this swap request''
            else Failure 400 ''Swap request is no longer pending'', s) \<and>
         rejectRoute caller rid body s =
           (if \<not> optionalMaxLength 500 body then Failure 400 ''Validation errors''
            else if itemOwner r \<noteq> caller
            then Failure 403 ''Not authorized to reject this swap request''
            else Failure 400 ''Swap request is no longer pending'', s) \<and>
         completeRoute now caller rid s =
           (if requester r \<noteq> caller \<and> itemOwner r \<noteq> caller
            then Failure 403 ''Not authorized to complete this swap''
            else Failure 400 ''Swap request must be accepted before completion'', s) \<and>
         cancelRoute now caller rid reason s =
           (if \<not> optionalMaxLength 200 reason then Failure 400 ''Validation errors''
            else if requester r \<noteq> caller
            then Failure 403 ''Not authorized to cancel this swap request''
            else Failure 400 ''Swap request cannot be cancelled'', s)"
proof -
  from assms(2) have "status r \<noteq> Pending" and "status r \<noteq> Accepted"
    by auto
  with assms(1) show ?thesis
    by (simp add: acceptRoute_def rejectRoute_def completeRoute_def cancelRoute_def
          canBeCancelled_def)
qed

text \<open>On a rejected request: the owner's accept and reject, the requester's complete and cancel.\<close>

theorem terminal_request_stays_witness:
  "acceptRoute 2 100 None rejectedRequest =
     (Failure 400 ''Swap request is no longer pending'', rejectedRequest) \<and>
   rejectRoute 2 100 None rejectedRequest =
     (Failure 400 ''Swap request is no longer pending'', rejectedRequest) \<and>
   completeRoute 0 1 100 rejectedRequest =
     (Failure 400 ''Swap request must be accepted before completion'', rejectedRequest) \<and>
   cancelRoute 0 1 100 None rejectedRequest =
     (Failure 400 ''Swap request cannot be cancelled'', rejectedRequest)"
proof -
  let ?r = "requestOf 10 1 2 Points None (Some 20) Rejected"
  have r: "map_of (swaps rejectedRequest) 100 = Some ?r"
    by (simp add: rejectedRequest_def)
  have st: "status ?r = Rejected \<or> status ?r = Completed \<or> status ?r = Cancelled"
    by (simp add: requestOf_def)
  from terminal_request_stays [OF r st, of 2 None 0 None]
    terminal_request_stays [OF r st, of 1 None 0 None]
  show ?thesis
    by (simp add: requestOf_def optionalMaxLength_def)
qed

text \<open>
  The claim as first stated (every operation fails as an invalid transition) fails
  when the requester calls accept on the rejected request: the answer is 403 not
  authorized.
\<close>

theorem terminal_request_unauthorized_counterexample:
  "map_option status (map_of (swaps rejectedRequest) 100) = Some Rejected \<and>
   acceptRoute 1 100 None rejectedRequest =
     (Failure 403 ''Not authorized to accept this swap request'', rejectedRequest)"
  by (simp add: rejectedRequest_def requestOf_def acceptRoute_def optionalMaxLength_def)

subsection \<open>Creating a request for one's own item\<close>

text \<open>
  C8. When the caller is the uploader of the requested item, \<open>POST /api/swaps\<close> always
  fails with a 400 answer and returns the store as it was, so no request is created:
  the answer is \<open>Cannot request swap for your own item\<close> for a valid body on an
  available item, and the earlier \<open>Validation errors\<close> or \<open>Item is not available for
  swapping\<close> otherwise. The schema's \<open>pre('save')\<close> hook is a second guard: saving a
  request whose item owner is its requester never resolves and writes nothing.
\<close>

theorem create_own_item_rejected:
  assumes "items s (itemId b) = Some i" and "uploader i = caller"
  shows "createRoute caller reqPoints newId now b s =
           (if \<not> bodyValid b then Failure 400 ''Validation errors''
            else if istatus i \<noteq> Available then Failure 400 ''Item is not available for swapping''
            else Failure 400 ''Cannot request swap for your own item'', s) \<and>
         fst (SwapRequest_save rid (r\<lparr>itemOwner := requester r\<rparr>) s) \<noteq> Done \<and>
         snd (SwapRequest_save rid (r\<lparr>itemOwner := requester r\<rparr>) s) = s"
proof -
  have "SwapRequest_preSave (r\<lparr>itemOwner := requester r\<rparr>) \<noteq> None"
    by (simp add: SwapRequest_preSave_def)
  then have "fst (SwapRequest_save rid (r\<lparr>itemOwner := requester r\<rparr>) s) \<noteq> Done \<and>
             snd (SwapRequest_save rid (r\<lparr>itemOwner := requester r\<rparr>) s) = s"
    by (auto simp: SwapRequest_save_def split: list.splits option.splits)
  with assms show ?thesis
    by (simp add: createRoute_def)
qed

text \<open>In Scenario A, user 2 asks for their own item 10.\<close>

theorem create_own_item_rejected_witness:
  "createRoute 2 0 101 0
     \<lparr>itemId = 10, swapTypeField = ''points'', offeredItemId = None,
      offeredPointsField = Some 20, messageField = None\<rparr> scenarioA =
     (Failure 400 ''Cannot request swap for your own item'', scenarioA)"
proof -
  let ?b = "\<lparr>itemId = 10, swapTypeField = ''points'', offeredItemId = None,
             offeredPointsField = Some 20, messageField = None\<rparr>"
  have i: "items scenarioA (itemId ?b) = Some (listing 2 20 Available)"
    by (simp add: scenarioA_def)
  have u: "uploader (listing 2 20 Available) = 2"
    by (simp add: listing_def)
  from create_own_item_rejected [OF i u, of 0 101 0]
  show ?thesis
    by (simp add: bodyValid_def optionalMaxLength_def listing_def)
qed

end
